theory Spec2Isabelle
  imports Complex_Main "HOL-Library.Word"
begin

unbundle bit_operations_syntax

section \<open>The FastNet frame decoder (fastnet\_decoder/decode\_fastnet.py)\<close>

text \<open>
  A shallow embedding of the three functions of \<^verbatim>\<open>decode_fastnet.py\<close>:
  \<^verbatim>\<open>decode_frame\<close>, \<^verbatim>\<open>decode_ascii_frame\<close> and \<^verbatim>\<open>decode_format_and_data\<close>.

  \<^item> A Python \<^verbatim>\<open>bytes\<close> object is a list of 8-bit words; indexing it gives a Python
    integer, read here with \<open>uint\<close>, and the bit operations of the source work on
    unbounded integers (\<open>int\<close>).
  \<^item> A raised exception is a value of type \<open>exn\<close>; a function that can raise returns
    \<open>exn + 'a\<close>, and every \<^verbatim>\<open>try/except\<close> of the source is a case distinction.
  \<^item> Python's \<^verbatim>\<open>None\<close> as a return value is \<open>None\<close> of an option type.
  \<^item> The \<^verbatim>\<open>while\<close> loop of \<^verbatim>\<open>decode_frame\<close> is a partial function: not returning is
    the value \<open>None\<close> of the outer option.
  \<^item> Python's true division \<^verbatim>\<open>raw / divisor\<close> of two integers returns the float nearest
    to the exact quotient; the model keeps the exact quotient as a rational number.
  \<^item> Calls of the logger have no effect on the results and are left out.
\<close>

subsection \<open>Data\<close>

type_synonym byte = "8 word"

datatype exn =
    IndexError
  | ValueError string
  | UnboundLocalError
  | UnicodeDecodeError
  | UtilityError string

text \<open>
  \<^verbatim>\<open>str(e)\<close>. Only the text of \<^verbatim>\<open>IndexError\<close> reaches a result of the module (a frame
  too short to slice); the others are given for completeness.
\<close>

fun str_exn :: "exn \<Rightarrow> string" where
  "str_exn IndexError = ''index out of range''"
| "str_exn (ValueError m) = m"
| "str_exn UnboundLocalError =
     ''local variable referenced before assignment''"
| "str_exn UnicodeDecodeError = ''ordinal not in range(128)''"
| "str_exn (UtilityError m) = m"

text \<open>
  The imports of the module that are not among the sources: \<^verbatim>\<open>calculate_checksum\<close> and
  \<^verbatim>\<open>convert_segment_b_to_char\<close> of \<^verbatim>\<open>utils\<close>, and the four tables of \<^verbatim>\<open>mappings\<close>. They
  are parameters of the model. The checksum is a pure function from a byte range to a
  single byte; the segment utility may raise; the format-size table maps the low nibble
  of a format byte to a byte count.
\<close>

record env =
  calculate_checksum :: "byte list \<Rightarrow> byte"
  convert_segment_b_to_char :: "byte \<Rightarrow> exn + string"
  ADDRESS_LOOKUP :: "byte \<rightharpoonup> string"
  COMMAND_LOOKUP :: "byte \<rightharpoonup> string"
  CHANNEL_LOOKUP :: "byte \<rightharpoonup> string"
  FORMAT_SIZE_MAP :: "int \<rightharpoonup> nat"

text \<open>The \<^verbatim>\<open>raw\<close> entry of a decoded value: an integer, a dictionary or a list, by format.\<close>

datatype raw_value =
    RawInt int
  | RawSegmentUnsigned (segment_code: int) (unsigned_value: int)
  | RawSegmentSigned (segment_code: int) (signed_value: int)
  | RawTimer (useless: int) (hours: int) (minutes: int) (seconds: int)
  | RawHex "string list"
  | RawPair (first_raw: int) (second_raw: int)

text \<open>
  The \<^verbatim>\<open>interpreted\<close> entry: a quotient, a \<^verbatim>\<open>timedelta\<close> (given by its total number of
  seconds), a text, or the dictionary with \<^verbatim>\<open>first\<close> and \<^verbatim>\<open>second\<close>.
\<close>

datatype interpreted_value =
    Scaled rat
  | Duration int
  | Text string
  | TwoValues (first: rat) (second: rat)

record decoded_value =
  channel_id :: string
  format_byte :: string
  data_bytes :: string
  divisor :: int
  digits :: int
  format_bits :: int
  raw :: raw_value
  interpreted :: interpreted_value

subsection \<open>Formatting\<close>

definition hex_digit :: "string \<Rightarrow> nat \<Rightarrow> char" where
  "hex_digit alphabet n = alphabet ! (n mod 16)"

text \<open>\<^verbatim>\<open>f"{b:02X}"\<close> for a byte.\<close>

definition hex02X :: "byte \<Rightarrow> string" where
  "hex02X b = [hex_digit ''0123456789ABCDEF'' (unat b div 16),
               hex_digit ''0123456789ABCDEF'' (unat b mod 16)]"

text \<open>\<^verbatim>\<open>bytes.hex()\<close>: two lower-case digits for each byte.\<close>

definition bytes_hex :: "byte list \<Rightarrow> string" where
  "bytes_hex bs = concat (map (\<lambda>b. [hex_digit ''0123456789abcdef'' (unat b div 16),
                                     hex_digit ''0123456789abcdef'' (unat b mod 16)]) bs)"

text \<open>\<^verbatim>\<open>TABLE.get(code, f"Unknown (0x{code:02X})")\<close>.\<close>

definition lookup_name :: "(byte \<rightharpoonup> string) \<Rightarrow> byte \<Rightarrow> string" where
  "lookup_name table code =
     (case table code of Some name \<Rightarrow> name
      | None \<Rightarrow> ''Unknown (0x'' @ hex02X code @ '')'')"

subsection \<open>The format interpreter\<close>

text \<open>
  \<^verbatim>\<open>int.from_bytes(bs, byteorder="big", signed=s)\<close>: the big-endian value, less
  \<open>2 ^ (8 * length bs)\<close> when signed and the top bit is set.
\<close>

definition from_bytes_big :: "byte list \<Rightarrow> bool \<Rightarrow> int" where
  "from_bytes_big bs is_signed =
     (let u = foldl (\<lambda>acc b. acc * 256 + uint b) 0 bs
      in if is_signed \<and> bs \<noteq> [] \<and> 2 ^ (8 * length bs - 1) \<le> u
         then u - 2 ^ (8 * length bs) else u)"

definition divisor_map :: "int \<rightharpoonup> int" where
  "divisor_map = [0 \<mapsto> 1, 1 \<mapsto> 10, 2 \<mapsto> 100, 3 \<mapsto> 1000]"

definition digits_map :: "int \<rightharpoonup> int" where
  "digits_map = [0 \<mapsto> 1, 1 \<mapsto> 2, 2 \<mapsto> 3, 3 \<mapsto> 4]"

text \<open>\<^verbatim>\<open>d.get(k, default)\<close>.\<close>

definition dict_get :: "('k \<rightharpoonup> 'v) \<Rightarrow> 'k \<Rightarrow> 'v \<Rightarrow> 'v" where
  "dict_get d k dflt = (case d k of Some v \<Rightarrow> v | None \<Rightarrow> dflt)"

text \<open>
  \<^verbatim>\<open>"".join(convert_segment_b_to_char(byte) for byte in data_bytes)\<close>: the bytes are
  converted in order, and the first exception ends the evaluation.
\<close>

fun join_segments :: "env \<Rightarrow> byte list \<Rightarrow> exn + string" where
  "join_segments env [] = Inr []"
| "join_segments env (b # bs) =
     (case convert_segment_b_to_char env b of
        Inl e \<Rightarrow> Inl e
      | Inr c \<Rightarrow> (case join_segments env bs of Inl e \<Rightarrow> Inl e | Inr s \<Rightarrow> Inr (c @ s)))"

text \<open>
  The body of the \<^verbatim>\<open>try\<close> block of \<^verbatim>\<open>decode_format_and_data\<close> (lines 154 to 275). In
  the branch of format 0x03 the right-hand side of line 196 reads the local variable
  \<^verbatim>\<open>signed_value\<close>, which has no value yet, whenever \<^verbatim>\<open>is_negative\<close> is false: Python
  raises \<^verbatim>\<open>UnboundLocalError\<close> there.
\<close>

definition decode_format_and_data_try ::
  "env \<Rightarrow> byte \<Rightarrow> byte \<Rightarrow> byte list \<Rightarrow> exn + decoded_value option" where
  "decode_format_and_data_try env cid fb bs =
     (let divisor_bits = drop_bit 6 (uint fb) AND 3;
          digits_bits = drop_bit 4 (uint fb) AND 3;
          fbits = uint fb AND 15;
          dv = dict_get divisor_map divisor_bits 1;
          dg = dict_get digits_map digits_bits 1;
          result = (\<lambda>raw_value interpreted_value.
             Inr (Some \<lparr>channel_id = ''0x'' @ hex02X cid,
                        format_byte = ''0x'' @ hex02X fb,
                        data_bytes = bytes_hex bs,
                        divisor = dv, digits = dg, format_bits = fbits,
                        raw = raw_value, interpreted = interpreted_value\<rparr>))
      in
      if length bs = 0 then Inr None
      else if fbits = 1 then
        (if length bs \<noteq> 2 then Inr None
         else let raw_value = from_bytes_big bs True
              in result (RawInt raw_value) (Scaled (of_int raw_value / of_int dv)))
      else if fbits = 2 then
        (if length bs \<noteq> 2 then Inr None
         else let segment = drop_bit 2 (uint (bs ! 0)) AND 63;
                  unsigned_val = push_bit 8 (uint (bs ! 0) AND 3) OR uint (bs ! 1)
              in result (RawSegmentUnsigned segment unsigned_val)
                        (Scaled (of_int unsigned_val / of_int dv)))
      else if fbits = 3 then
        (if length bs \<noteq> 2 then Inr None
         else let segment = drop_bit 1 (uint (bs ! 0)) AND 127;
                  unsigned_val = push_bit 8 (uint (bs ! 0) AND 1) OR uint (bs ! 1);
                  is_negative = (segment AND 64 \<noteq> 0)
              in if \<not> is_negative then Inl UnboundLocalError
                 else let signed_val = - unsigned_val
                      in result (RawSegmentSigned segment signed_val)
                                (Scaled (of_int unsigned_val / of_int dv)))
      else if fbits = 4 then
        (if length bs \<noteq> 4 then Inr None
         else let segment = uint (bs ! 0);
                  unsigned_val = from_bytes_big (drop 1 bs) False
              in result (RawSegmentUnsigned segment unsigned_val)
                        (Scaled (of_int unsigned_val / of_int dv)))
      else if fbits = 5 then
        (if length bs \<noteq> 4 then Inr None
         else let u = uint (bs ! 0); h = uint (bs ! 1);
                  m = uint (bs ! 2); s = uint (bs ! 3)
              in result (RawTimer u h m s) (Duration (3600 * h + 60 * m + s)))
      else if fbits = 6 then
        (if length bs \<noteq> 4 then Inr None
         else case join_segments env bs of
                Inl e \<Rightarrow> Inl e
              | Inr segment_text \<Rightarrow> result (RawHex (map hex02X bs)) (Text segment_text))
      else if fbits = 7 then
        (if length bs \<noteq> 4 then Inr None
         else let msb = drop_bit 1 (uint (bs ! 2)) AND 127;
                  lsb = uint (bs ! 3);
                  unsigned_val = push_bit 8 msb OR lsb
              in result (RawInt unsigned_val) (Scaled (of_int unsigned_val / of_int dv)))
      else if fbits = 8 then
        (if length bs \<noteq> 2 then Inr None
         else let segment = drop_bit 1 (uint (bs ! 0)) AND 127;
                  unsigned_val = push_bit 8 (uint (bs ! 0) AND 1) OR uint (bs ! 1)
              in result (RawSegmentUnsigned segment unsigned_val)
                        (Scaled (of_int unsigned_val / of_int dv)))
      else if fbits = 10 then
        (if length bs \<noteq> 4 then Inr None
         else let first_value = from_bytes_big (take 2 bs) True;
                  second_value = from_bytes_big (drop 2 bs) True
              in result (RawPair first_value second_value)
                        (TwoValues (of_int first_value / of_int dv)
                                   (of_int second_value / of_int dv)))
      else Inr None)"

text \<open>
  \<^verbatim>\<open>decode_format_and_data\<close>: the \<^verbatim>\<open>try\<close> block under its handler
  \<^verbatim>\<open>except Exception: return None\<close> (lines 277 to 279). The result type still has the
  exception case, since the caller wraps the call in a \<^verbatim>\<open>try\<close> of its own.
\<close>

definition decode_format_and_data ::
  "env \<Rightarrow> byte \<Rightarrow> byte \<Rightarrow> byte list \<Rightarrow> exn + decoded_value option" where
  "decode_format_and_data env cid fb bs =
     (case decode_format_and_data_try env cid fb bs of
        Inl e \<Rightarrow> Inr None
      | Inr r \<Rightarrow> Inr r)"

subsection \<open>The binary frame\<close>

record 'v decoded_frame =
  to_address :: string
  from_address :: string
  command :: string
  values_of :: "string \<rightharpoonup> 'v"

text \<open>
  The dictionary a frame decoder returns: \<^verbatim>\<open>{"error": message}\<close> or the decoded frame.
  In \<^verbatim>\<open>decode_frame\<close> a value of the mapping is what \<^verbatim>\<open>decode_format_and_data\<close>
  returned: a decoded value or \<^verbatim>\<open>None\<close>.
\<close>

datatype 'v frame_result = Error string | Decoded "'v decoded_frame"

type_synonym channel_values = "string \<rightharpoonup> decoded_value option"

text \<open>\<^verbatim>\<open>FORMAT_SIZE_MAP.get(format_byte & 0x0F, 0)\<close> (line 54).\<close>

definition data_length_of :: "env \<Rightarrow> byte \<Rightarrow> nat" where
  "data_length_of env fb = dict_get (FORMAT_SIZE_MAP env) (uint fb AND 15) 0"

text \<open>
  One pass through the body of the \<^verbatim>\<open>while\<close> loop (lines 48 to 70), from the cursor
  \<open>index\<close>: the cursor after the pass, and either the exception that the handler of line
  69 caught or the entry stored in line 67.

  \<^item> \<^verbatim>\<open>body[index + 1]\<close> raises \<^verbatim>\<open>IndexError\<close> when \<open>index\<close> is the last position of
    the body; \<^verbatim>\<open>index += 2\<close> has not run then, so the cursor stays.
  \<^item> The \<^verbatim>\<open>ValueError\<close> of line 56 is raised after \<^verbatim>\<open>index += 2\<close>.
\<close>

definition decode_record ::
  "env \<Rightarrow> byte list \<Rightarrow> nat \<Rightarrow> nat \<times> (exn + string \<times> decoded_value option)" where
  "decode_record env body index =
     (if length body \<le> index + 1 then (index, Inl IndexError)
      else
        let cid = body ! index;
            fb = body ! (index + 1);
            index2 = index + 2;
            data_length = data_length_of env fb
        in if index2 + data_length > length body
           then (index2, Inl (ValueError (''Incomplete data for channel 0x'' @ hex02X cid)))
           else
             let bs = take data_length (drop index2 body);
                 index3 = index2 + data_length
             in case decode_format_and_data env cid fb bs of
                  Inl e \<Rightarrow> (index3, Inl e)
                | Inr decoded \<Rightarrow>
                    (index3, Inr (lookup_name (CHANNEL_LOOKUP env) cid, decoded)))"

text \<open>Line 67 when the pass stored an entry; nothing when the handler caught.\<close>

definition store_entry ::
  "exn + string \<times> decoded_value option \<Rightarrow> channel_values \<Rightarrow> channel_values" where
  "store_entry outcome vals =
     (case outcome of Inl e \<Rightarrow> vals | Inr (name, decoded) \<Rightarrow> vals(name \<mapsto> decoded))"

text \<open>
  The loop \<^verbatim>\<open>while index < len(body)\<close> (lines 47 to 70). \<open>None\<close> is a loop that does
  not end.
\<close>

partial_function (option) decode_body ::
  "env \<Rightarrow> byte list \<Rightarrow> nat \<Rightarrow> channel_values \<Rightarrow> channel_values option" where
  "decode_body env body index vals =
     (if index < length body
      then decode_body env body (fst (decode_record env body index))
             (store_entry (snd (decode_record env body index)) vals)
      else Some vals)"

declare decode_body.simps [code]

text \<open>
  \<^verbatim>\<open>decode_frame\<close>. \<^verbatim>\<open>frame[4]\<close> raises \<^verbatim>\<open>IndexError\<close> on a frame of fewer than five
  bytes, which the handler of line 74 turns into an error result; the slices
  \<^verbatim>\<open>frame[:4]\<close> and \<^verbatim>\<open>frame[5:-1]\<close> never raise, and \<^verbatim>\<open>frame[-1]\<close> is the last byte.
\<close>

definition decode_frame :: "env \<Rightarrow> byte list \<Rightarrow> decoded_value option frame_result option" where
  "decode_frame env frame =
     (if length frame < 5 then Some (Error (str_exn IndexError))
      else
        let to_addr = frame ! 0;
            from_addr = frame ! 1;
            cmd = frame ! 3;
            header_checksum = frame ! 4;
            body = drop 5 (butlast frame);
            body_checksum = last frame
        in if calculate_checksum env (take 4 frame) \<noteq> header_checksum
           then Some (Error ''Header checksum mismatch'')
           else if calculate_checksum env body \<noteq> body_checksum
           then Some (Error ''Body checksum mismatch'')
           else map_option
                  (\<lambda>vals. Decoded \<lparr>to_address = lookup_name (ADDRESS_LOOKUP env) to_addr,
                                    from_address = lookup_name (ADDRESS_LOOKUP env) from_addr,
                                    command = lookup_name (COMMAND_LOOKUP env) cmd,
                                    values_of = vals\<rparr>)
                  (decode_body env body 0 Map.empty))"

subsection \<open>The ASCII frame\<close>

text \<open>The value stored for the one channel of an ASCII frame (lines 125 to 131).\<close>

record ascii_value =
  ascii_channel_id :: string
  ascii_format_byte :: string
  ascii_data_bytes :: string
  ascii_raw :: string
  ascii_interpreted :: string

text \<open>\<^verbatim>\<open>bytes.decode("ascii")\<close>: a byte above 0x7F raises \<^verbatim>\<open>UnicodeDecodeError\<close>.\<close>

definition decode_ascii :: "byte list \<Rightarrow> exn + string" where
  "decode_ascii bs =
     (if list_all (\<lambda>b. uint b < 128) bs then Inr (map (\<lambda>b. char_of (uint b)) bs)
      else Inl UnicodeDecodeError)"

text \<open>
  \<^verbatim>\<open>str.strip()\<close> removes leading and trailing whitespace; among the ASCII characters
  those are the codes 9 to 13 and 28 to 32.
\<close>

definition is_space :: "char \<Rightarrow> bool" where
  "is_space c = (let n = (of_char c :: nat) in (9 \<le> n \<and> n \<le> 13) \<or> (28 \<le> n \<and> n \<le> 32))"

definition strip :: "string \<Rightarrow> string" where
  "strip s = rev (dropWhile is_space (rev (dropWhile is_space s)))"

text \<open>
  \<^verbatim>\<open>decode_ascii_frame\<close>. \<^verbatim>\<open>body[0]\<close> and \<^verbatim>\<open>body[1]\<close> raise \<^verbatim>\<open>IndexError\<close> on a body
  of fewer than two bytes. The two checksum bytes are read (lines 102 and 104) and not
  used again.
\<close>

definition decode_ascii_frame :: "env \<Rightarrow> byte list \<Rightarrow> ascii_value frame_result" where
  "decode_ascii_frame env frame =
     (if length frame < 5 then Error (str_exn IndexError)
      else
        let to_addr = frame ! 0;
            from_addr = frame ! 1;
            cmd = frame ! 3;
            header_checksum = frame ! 4;
            body = drop 5 (butlast frame);
            body_checksum = last frame
        in if length body < 2 then Error (str_exn IndexError)
           else
             let cid = body ! 0;
                 fb = body ! 1;
                 bs = drop 2 body;
                 channel_name = lookup_name (CHANNEL_LOOKUP env) cid
             in case decode_ascii bs of
                  Inl e \<Rightarrow> Error ''ASCII decode failed''
                | Inr decoded_text \<Rightarrow>
                    let ascii_text = strip decoded_text
                    in Decoded
                         \<lparr>to_address = lookup_name (ADDRESS_LOOKUP env) to_addr,
                          from_address = lookup_name (ADDRESS_LOOKUP env) from_addr,
                          command = lookup_name (COMMAND_LOOKUP env) cmd,
                          values_of =
                            [channel_name \<mapsto>
                               \<lparr>ascii_channel_id = ''0x'' @ hex02X cid,
                                ascii_format_byte = ''0x'' @ hex02X fb,
                                ascii_data_bytes = bytes_hex bs,
                                ascii_raw = ascii_text,
                                ascii_interpreted = ascii_text\<rparr>]\<rparr>)"

subsection \<open>Bodies made of complete records, and an environment to run on\<close>

text \<open>
  A channel record is a channel id, a format byte and a payload; on the wire it is these
  bytes in a row. A record is complete when its payload has the length that the
  format-size table gives for its format byte, so that the loop of \<^verbatim>\<open>decode_frame\<close>
  cuts the body at the record's end.
\<close>

type_synonym channel_record = "byte \<times> byte \<times> byte list"

definition encode_record :: "channel_record \<Rightarrow> byte list" where
  "encode_record r = (case r of (cid, fb, payload) \<Rightarrow> cid # fb # payload)"

definition encode_body :: "channel_record list \<Rightarrow> byte list" where
  "encode_body rs = concat (map encode_record rs)"

definition complete_record :: "env \<Rightarrow> channel_record \<Rightarrow> bool" where
  "complete_record env r = (case r of (cid, fb, payload) \<Rightarrow> length payload = data_length_of env fb)"

definition channel_of :: "env \<Rightarrow> channel_record \<Rightarrow> string" where
  "channel_of env r = (case r of (cid, fb, payload) \<Rightarrow> lookup_name (CHANNEL_LOOKUP env) cid)"

text \<open>What one pass of the loop makes of a complete record: the second component of
  \<open>decode_record\<close> at the record's position.\<close>

definition record_outcome :: "env \<Rightarrow> channel_record \<Rightarrow> exn + string \<times> decoded_value option" where
  "record_outcome env r =
     (case r of (cid, fb, payload) \<Rightarrow>
        (case decode_format_and_data env cid fb payload of
           Inl e \<Rightarrow> Inl e
         | Inr decoded \<Rightarrow> Inr (lookup_name (CHANNEL_LOOKUP env) cid, decoded)))"

text \<open>A frame around a body, with the two checksums that the environment computes.\<close>

definition frame_around :: "env \<Rightarrow> byte \<Rightarrow> byte \<Rightarrow> byte \<Rightarrow> byte \<Rightarrow> byte list \<Rightarrow> byte list" where
  "frame_around env t f n c body =
     [t, f, n, c, calculate_checksum env [t, f, n, c]] @ body @ [calculate_checksum env body]"

text \<open>
  Modelled from the spec: the modules \<^verbatim>\<open>utils\<close> and \<^verbatim>\<open>mappings\<close> are not among the
  sources. This environment is one instance of their contracts in section 6 of the
  specification, for running the decoder on concrete frames: the checksum is a pure
  function of the bytes with a single byte as result (the two's complement of their
  sum), the segment utility is total and returns one character, the three name tables
  are empty, so that every code takes the fallback \<^verbatim>\<open>Unknown (0xHH)\<close>, and the format-size
  table holds the payload lengths of the table in section 4.3, with no entry (hence the
  default 0) for the unsupported codes.
\<close>

definition example_env :: env where
  "example_env =
     \<lparr>calculate_checksum = (\<lambda>bs. - sum_list bs),
      convert_segment_b_to_char = (\<lambda>b. Inr ''?''),
      ADDRESS_LOOKUP = Map.empty,
      COMMAND_LOOKUP = Map.empty,
      CHANNEL_LOOKUP = Map.empty,
      FORMAT_SIZE_MAP = [1 \<mapsto> 2, 2 \<mapsto> 2, 3 \<mapsto> 2, 4 \<mapsto> 4, 5 \<mapsto> 4,
                         6 \<mapsto> 4, 7 \<mapsto> 4, 8 \<mapsto> 2, 10 \<mapsto> 4]\<rparr>"

text \<open>The value mapping of a result, empty when there is none.\<close>

definition result_values :: "'v frame_result option \<Rightarrow> (string \<rightharpoonup> 'v)" where
  "result_values r = (case r of Some (Decoded d) \<Rightarrow> values_of d | _ \<Rightarrow> Map.empty)"

definition is_decoded :: "'v frame_result option \<Rightarrow> bool" where
  "is_decoded r = (case r of Some (Decoded d) \<Rightarrow> True | _ \<Rightarrow> False)"

text \<open>
  The mapping after the loop has gone through a list of complete records, each
  stored under its channel name in turn, a later entry replacing an earlier one of the
  same name.
\<close>

fun stored :: "env \<Rightarrow> channel_values \<Rightarrow> channel_record list \<Rightarrow> channel_values" where
  "stored env vals [] = vals"
| "stored env vals (r # rs) = stored env (store_entry (record_outcome env r) vals) rs"

subsection \<open>The specification's reading of a decoded value\<close>

text \<open>The divisor, the raw value and the interpreted value of a result, when there is one.\<close>

definition scaling_of ::
  "exn + decoded_value option \<Rightarrow> (int \<times> raw_value \<times> interpreted_value) option" where
  "scaling_of r =
     (case r of Inr (Some d) \<Rightarrow> Some (divisor d, raw d, interpreted d) | _ \<Rightarrow> None)"

text \<open>
  Following the specification (section 4.3, step 1): the divisor is given by bits 7-6 of
  the format byte through the mapping 00 to 1, 01 to 10, 10 to 100, 11 to 1000.
\<close>

definition spec_divisor :: "byte \<Rightarrow> int" where
  "spec_divisor fb = [1, 10, 100, 1000] ! (unat fb div 64)"

text \<open>
  Following the specification (section 8): the interpreted value is the raw numeric value
  divided by the divisor, for a raw value that is a number, a numeric value beside a
  segment code, or a pair of numbers. The other raw values carry no number to scale.
\<close>

fun spec_scaled :: "int \<Rightarrow> raw_value \<Rightarrow> interpreted_value option" where
  "spec_scaled dv (RawInt n) = Some (Scaled (of_int n / of_int dv))"
| "spec_scaled dv (RawSegmentUnsigned s u) = Some (Scaled (of_int u / of_int dv))"
| "spec_scaled dv (RawPair a b) = Some (TwoValues (of_int a / of_int dv) (of_int b / of_int dv))"
| "spec_scaled dv (RawSegmentSigned s v) = None"
| "spec_scaled dv (RawTimer u h m s) = None"
| "spec_scaled dv (RawHex xs) = None"

text \<open>
  Following the specification's words for format 0x07: the low seven bits of byte 2 (its
  top bit discarded) above the eight bits of byte 3,
  \<^verbatim>\<open>((payload[2] & 0x7F) << 8) | payload[3]\<close>.
\<close>

definition spec_format_07_raw :: "byte list \<Rightarrow> int" where
  "spec_format_07_raw payload = push_bit 8 (uint (payload ! 2) AND 127) OR uint (payload ! 3)"

section \<open>Bits of a byte\<close>

text \<open>
  The masks and shifts of the source, as arithmetic on the value of a byte.
\<close>

lemma and_low_bits: "(x::int) AND (2 ^ n - 1) = x mod 2 ^ n"
  by (simp add: take_bit_eq_mod flip: take_bit_eq_mask mask_eq_exp_minus_1)

lemma and_127: "(x::int) AND 127 = x mod 128"
  using and_low_bits [of x 7] by simp

lemma and_64_eq_0: "0 \<le> y \<Longrightarrow> y < 64 \<Longrightarrow> (y::int) AND 64 = 0"
  using and_exp_eq_0_iff_not_bit [of y 6] by (simp add: bit_iff_odd)

lemma and_64_neq_0: "64 \<le> y \<Longrightarrow> y < 128 \<Longrightarrow> (y::int) AND 64 \<noteq> 0"
proof -
  assume a: "64 \<le> y" "y < 128"
  then have "y div 64 = 1" by simp
  then have "bit y 6" by (simp add: bit_iff_odd)
  then show ?thesis using and_exp_eq_0_iff_not_bit [of y 6] by simp
qed

lemma sign_bit_clear: "0 \<le> x \<Longrightarrow> x < 128 \<Longrightarrow> (drop_bit 1 (x::int) AND 127) AND 64 = 0"
  by (simp add: and_127 drop_bit_eq_div and_64_eq_0)

lemma sign_bit_set: "128 \<le> x \<Longrightarrow> x < 256 \<Longrightarrow> (drop_bit 1 (x::int) AND 127) AND 64 \<noteq> 0"
  by (simp add: and_127 drop_bit_eq_div and_64_neq_0)

lemma sign_bit_set_div: "128 \<le> x \<Longrightarrow> x < 256 \<Longrightarrow> (x::int) div 2 AND 64 \<noteq> 0"
  by (simp add: and_64_neq_0)

lemma push_8_or: "0 \<le> y \<Longrightarrow> y < 256 \<Longrightarrow> push_bit 8 (m::int) OR y = 256 * m + y"
proof -
  assume a: "0 \<le> y" "y < 256"
  then have t: "take_bit 8 y = y" by (simp add: take_bit_int_eq_self)
  have "push_bit 8 m OR y = concat_bit 8 y m"
    by (simp add: concat_bit_def t or.commute)
  also have "\<dots> = 256 * m + y"
    by (simp add: concat_bit_eq t push_bit_eq_mult)
  finally show ?thesis .
qed

lemma upper7: "0 \<le> x \<Longrightarrow> x < 256 \<Longrightarrow> 0 \<le> y \<Longrightarrow> y < 256 \<Longrightarrow> push_bit 8 (drop_bit 1 (x::int) AND 127) OR y = 256 * (x div 2) + y"
  by (simp add: push_8_or and_127 drop_bit_eq_div)

lemma uint_byte_bounds: "0 \<le> uint (b::byte)" "uint (b::byte) < 256"
  using uint_bounded [of b] by simp_all

lemma uint_word_cat_bytes: "uint (word_cat (a::byte) (b::byte) :: 16 word) = 256 * uint a + uint b"
proof -
  have r: "0 \<le> 256 * uint a + uint b" "256 * uint a + uint b < 65536"
    using uint_byte_bounds [of a] uint_byte_bounds [of b] by simp_all
  have "uint (word_cat a b :: 16 word) = take_bit 16 (concat_bit 8 (uint b) (uint a))"
    by (simp add: word_cat_eq' uint_word_of_int_eq)
  also have "concat_bit 8 (uint b) (uint a) = 256 * uint a + uint b"
    using uint_byte_bounds [of b] by (simp add: concat_bit_eq push_bit_eq_mult take_bit_int_eq_self)
  finally show ?thesis using r by (simp add: take_bit_int_eq_self)
qed

lemma wrap_16: "0 \<le> u \<Longrightarrow> u < 65536 \<Longrightarrow>
    (u + 32768) mod 65536 - 32768 = (if 32768 \<le> u then u - 65536 else u)" for u :: int
proof (cases "32768 \<le> u")
  case True
  assume b: "0 \<le> u" "u < 65536"
  have "u + 32768 = (u - 32768) + 65536" by simp
  then have "(u + 32768) mod 65536 = ((u - 32768) + 65536) mod 65536" by (rule arg_cong)
  also have "\<dots> = (u - 32768) mod 65536" by (simp only: mod_add_self2)
  also have "\<dots> = u - 32768" using True b by (simp add: mod_pos_pos_trivial)
  finally show ?thesis using True by simp
next
  case False
  assume b: "0 \<le> u" "u < 65536"
  then have "(u + 32768) mod 65536 = u + 32768" using False by (simp add: mod_pos_pos_trivial)
  then show ?thesis using False by simp
qed

lemma from_bytes_big_signed_16: "from_bytes_big [a, b] True = sint (word_cat a b :: 16 word)"
proof -
  let ?u = "256 * uint a + uint b"
  have r: "0 \<le> ?u" "?u < 65536"
    using uint_byte_bounds [of a] uint_byte_bounds [of b] by simp_all
  have "sint (word_cat a b :: 16 word) = take_bit 16 (?u + 32768) - 32768"
    by (simp add: sint_uint uint_word_cat_bytes signed_take_bit_eq_take_bit_shift)
  also have "\<dots> = (?u + 32768) mod 65536 - 32768"
    by (simp add: take_bit_eq_mod)
  also have "\<dots> = (if 32768 \<le> ?u then ?u - 65536 else ?u)"
    using r by (rule wrap_16)
  finally show ?thesis
    by (simp add: from_bytes_big_def Let_def mult.commute)
qed

lemma fbits_and: "(fb::byte) AND 207 = fb' AND 207 \<Longrightarrow> uint fb AND 15 = uint fb' AND 15"
proof -
  assume "fb AND 207 = fb' AND 207"
  then have "uint (fb AND 207) = uint (fb' AND 207)" by simp
  then have e: "uint fb AND 207 = uint fb' AND 207" by (simp add: uint_and)
  have "uint fb AND 15 = (uint fb AND 207) AND 15" by (simp add: and.assoc)
  also have "\<dots> = (uint fb' AND 207) AND 15" by (simp only: e)
  also have "\<dots> = uint fb' AND 15" by (simp add: and.assoc)
  finally show ?thesis .
qed

lemma dbits_and: "(fb::byte) AND 207 = fb' AND 207 \<Longrightarrow> drop_bit 6 (uint fb) AND 3 = drop_bit 6 (uint fb') AND 3"
proof -
  assume "fb AND 207 = fb' AND 207"
  then have "uint (fb AND 207) = uint (fb' AND 207)" by simp
  then have e: "uint fb AND 207 = uint fb' AND 207" by (simp add: uint_and)
  have "drop_bit 6 (uint fb) AND 3 = drop_bit 6 (uint fb AND 207)" by simp
  also have "\<dots> = drop_bit 6 (uint fb' AND 207)" by (simp only: e)
  also have "\<dots> = drop_bit 6 (uint fb') AND 3" by simp
  finally show ?thesis .
qed

lemma divisor_bits_div: "drop_bit 6 (uint (fb::byte)) AND 3 = uint fb div 64"
proof -
  have "uint fb div 64 < 4" "0 \<le> uint fb div 64"
    using uint_byte_bounds [of fb] by (simp_all add: pos_imp_zdiv_nonneg_iff)
  then show ?thesis using and_low_bits [of "uint fb div 64" 2] by (simp add: drop_bit_eq_div)
qed

section \<open>The format interpreter\<close>

lemmas dfd_defs = decode_format_and_data_def decode_format_and_data_try_def Let_def

lemma divisor_of_bits: "dict_get divisor_map (drop_bit 6 (uint fb) AND 3) 1 = spec_divisor fb"
proof -
  have k: "uint fb div 64 = int (unat fb div 64)" by (simp add: zdiv_int)
  have "unat fb < 256" using unsigned_less [of fb, where 'a = nat] by simp
  then have "unat fb div 64 < 4" by simp
  then have "unat fb div 64 = 0 \<or> unat fb div 64 = 1 \<or> unat fb div 64 = 2 \<or> unat fb div 64 = 3" by arith
  then show ?thesis
    unfolding divisor_bits_div k spec_divisor_def
    by (auto simp: dict_get_def divisor_map_def)
qed

lemma length_2_iff: "length bs = 2 \<longleftrightarrow> (\<exists>a b. bs = [a, b])"
  by (auto simp: numeral_2_eq_2 length_Suc_conv)

lemma length_4_iff: "length bs = 4 \<longleftrightarrow> (\<exists>a b c d. bs = [a, b, c, d])"
  by (auto simp: numeral_eq_Suc length_Suc_conv)

lemma low9: "0 \<le> x \<Longrightarrow> 0 \<le> y \<Longrightarrow> y < 256 \<Longrightarrow> push_bit 8 ((x::int) AND 1) OR y = 256 * (x mod 2) + y"
  using and_low_bits [of x 1] by (simp add: push_8_or)

lemma seg7: "0 \<le> x \<Longrightarrow> x < 256 \<Longrightarrow> drop_bit 1 (x::int) AND 127 = x div 2"
  by (simp add: and_127 drop_bit_eq_div)

subsection \<open>Format 0x03\<close>

text \<open>
  Claim C1 says that for format code 0x03 every 2-byte payload decodes to a value whose
  interpreted field is the 9-bit magnitude over the divisor, whatever the sign flag.
  The code does not do that: when the sign flag (the top bit of the first payload byte)
  is clear, line 196 reads \<^verbatim>\<open>signed_value\<close> before any assignment, the exception is
  caught by the handler of the function, and the result is \<^verbatim>\<open>None\<close>. The theorem states
  this for every format byte with low nibble 3 and every such payload.
\<close>

theorem format_03_sign_flag_clear_gives_None:
  "uint fb AND 15 = 3 \<Longrightarrow> uint b0 < 128 \<Longrightarrow> decode_format_and_data env cid fb [b0, b1] = Inr None"
  using sign_bit_clear [of "uint b0"] by (simp add: dfd_defs)

theorem format_03_sign_flag_clear_gives_None_witness:
  "uint (3 :: byte) AND 15 = 3 \<and> uint (0 :: byte) < 128 \<and> decode_format_and_data example_env 5 3 [0, 5] = Inr None"
  using format_03_sign_flag_clear_gives_None [of 3 0 example_env 5 5] by simp

text \<open>
  With the sign flag set the record does decode, and the interpreted value is the
  magnitude over the divisor, without a sign; the raw value holds the negated magnitude.
\<close>

lemma format_03_sign_flag_set:
  "uint fb AND 15 = 3 \<Longrightarrow> 128 \<le> uint b0 \<Longrightarrow>
     scaling_of (decode_format_and_data env cid fb [b0, b1]) =
       Some (spec_divisor fb,
             RawSegmentSigned (uint b0 div 2) (- (256 * (uint b0 mod 2) + uint b1)),
             Scaled (of_int (256 * (uint b0 mod 2) + uint b1) / of_int (spec_divisor fb)))"
  using uint_byte_bounds [of b0] uint_byte_bounds [of b1] sign_bit_set [of "uint b0"] sign_bit_set_div [of "uint b0"]
    divisor_of_bits [of fb] low9 [of "uint b0" "uint b1"] seg7 [of "uint b0"]
  by (simp add: dfd_defs scaling_of_def)

subsection \<open>Format 0x07\<close>

text \<open>
  Claim C7, as the code has it: for format code 0x07 and every 4-byte payload, the raw
  value is the 15-bit number made of the upper seven bits of byte 2 (bits 7 to 1; the
  lowest bit of that byte is dropped) above the eight bits of byte 3, that is
  \<open>256 * (byte 2 div 2) + byte 3\<close>, and the interpreted value is that number over the
  divisor given by bits 7-6 of the format byte.
\<close>

theorem format_07_raw_is_upper_seven_bits:
  "uint fb AND 15 = 7 \<Longrightarrow>
     scaling_of (decode_format_and_data env cid fb [b0, b1, b2, b3]) =
       Some (spec_divisor fb, RawInt (256 * (uint b2 div 2) + uint b3),
             Scaled (of_int (256 * (uint b2 div 2) + uint b3) / of_int (spec_divisor fb)))"
  using uint_byte_bounds [of b2] uint_byte_bounds [of b3] upper7 [of "uint b2" "uint b3"]
    divisor_of_bits [of fb]
  by (simp add: dfd_defs scaling_of_def)

theorem format_07_raw_is_upper_seven_bits_witness:
  "uint (0x07 :: byte) AND 15 = 7 \<and>
   scaling_of (decode_format_and_data example_env 5 0x07 [0, 0, 0xFF, 0x01]) =
     Some (1, RawInt 32513, Scaled 32513)"
  using format_07_raw_is_upper_seven_bits [of "0x07" example_env 5 0 0 "0xFF" "0x01"]
  by (simp add: spec_divisor_def)

text \<open>
  The claim as stated takes the low seven bits of byte 2. On the payload 00 00 01 00 the
  two readings differ: the code gives 0, the stated formula 256.
\<close>

theorem format_07_counterexample:
  "scaling_of (decode_format_and_data example_env 5 7 [0, 0, 1, 0]) = Some (1, RawInt 0, Scaled 0)
   \<and> spec_format_07_raw [0, 0, 1, 0] = 256"
  by (simp add: dfd_defs scaling_of_def spec_format_07_raw_def dict_get_def divisor_map_def)

subsection \<open>Format 0x0A\<close>

text \<open>
  Claim C8: for format code 0x0A and every 4-byte payload, the raw value holds the two
  two's-complement big-endian 16-bit integers of bytes 0-1 and of bytes 2-3, and the
  interpreted value holds each of them over the same divisor.
\<close>

theorem format_0A_two_signed_values:
  "uint fb AND 15 = 10 \<Longrightarrow>
     scaling_of (decode_format_and_data env cid fb [b0, b1, b2, b3]) =
       Some (spec_divisor fb,
             RawPair (sint (word_cat b0 b1 :: 16 word)) (sint (word_cat b2 b3 :: 16 word)),
             TwoValues (of_int (sint (word_cat b0 b1 :: 16 word)) / of_int (spec_divisor fb))
                       (of_int (sint (word_cat b2 b3 :: 16 word)) / of_int (spec_divisor fb)))"
  by (simp add: dfd_defs scaling_of_def divisor_of_bits from_bytes_big_signed_16)

theorem format_0A_two_signed_values_witness:
  "uint (0x4A :: byte) AND 15 = 10 \<and>
   scaling_of (decode_format_and_data example_env 5 0x4A [0xFF, 0xFE, 0x01, 0x00]) =
     Some (10, RawPair (- 2) 256, TwoValues (- (1 / 5)) (128 / 5))"
proof -
  have a: "sint (word_cat (0xFF :: byte) (0xFE :: byte) :: 16 word) = - 2" by code_simp
  have b: "sint (word_cat (0x01 :: byte) (0x00 :: byte) :: 16 word) = 256" by code_simp
  have d: "spec_divisor 0x4A = 10" by (simp add: spec_divisor_def)
  show ?thesis
    using format_0A_two_signed_values [of "0x4A" example_env 5 "0xFF" "0xFE" "0x01" "0x00"]
    by (simp add: a b d)
qed

subsection \<open>No exception leaves the interpreter\<close>

text \<open>
  Claim C9: for every channel id, format byte and payload, \<^verbatim>\<open>decode_format_and_data\<close>
  returns a result or \<^verbatim>\<open>None\<close> and raises nothing; an exception raised inside the
  \<^verbatim>\<open>try\<close> block, in a dispatch branch too, becomes the result \<^verbatim>\<open>None\<close>.
\<close>

theorem decode_format_and_data_never_raises:
  "(\<exists>r. decode_format_and_data env cid fb bs = Inr r) \<and>
   (\<forall>e. decode_format_and_data_try env cid fb bs = Inl e \<longrightarrow>
        decode_format_and_data env cid fb bs = Inr None)"
  by (simp add: decode_format_and_data_def split: sum.split)

theorem decode_format_and_data_never_raises_witness:
  "decode_format_and_data_try example_env 5 3 [0, 5] = Inl UnboundLocalError
   \<and> decode_format_and_data example_env 5 3 [0, 5] = Inr None"
proof -
  have h: "decode_format_and_data_try example_env 5 3 [0, 5] = Inl UnboundLocalError"
    by (simp add: decode_format_and_data_try_def Let_def)
  from decode_format_and_data_never_raises [of example_env 5 3 "[0, 5]"] h
  have "decode_format_and_data example_env 5 3 [0, 5] = Inr None" by blast
  with h show ?thesis by simp
qed

subsection \<open>Scaling by the divisor\<close>

lemma scaled_formats:
  assumes "uint fb AND 15 \<in> {1, 2, 8} \<and> length bs = 2 \<or> uint fb AND 15 \<in> {4, 7, 10} \<and> length bs = 4"
  shows "\<exists>d. decode_format_and_data env cid fb bs = Inr (Some d) \<and> divisor d = spec_divisor fb
           \<and> spec_scaled (divisor d) (raw d) = Some (interpreted d)"
  using assms
  by (auto simp: length_2_iff length_4_iff dfd_defs divisor_of_bits)

lemma digits_independent:
  assumes "fb' AND 207 = fb AND 207"
  shows "scaling_of (decode_format_and_data env cid fb' bs) = scaling_of (decode_format_and_data env cid fb bs)"
proof -
  have e1: "uint fb' AND 15 = uint fb AND 15" using assms by (rule fbits_and)
  have e2: "drop_bit 6 (uint fb') AND 3 = drop_bit 6 (uint fb) AND 3" using assms by (rule dbits_and)
  show ?thesis
    by (simp add: dfd_defs scaling_of_def e1 e2 split: sum.split)
qed

text \<open>
  Claim C5, as the code has it: for the format codes 0x01, 0x02, 0x04, 0x07, 0x08 and
  0x0A and every payload of the required length (2 bytes for 0x01, 0x02 and 0x08, 4 bytes
  for the others), the record decodes, its divisor is given by bits 7-6 of the format byte
  through the mapping 1, 10, 100, 1000, and its interpreted value is the raw numeric value
  (both values for 0x0A) over that divisor. For every format byte and payload, two format
  bytes that differ only in bits 5-4 give the same divisor, raw value and interpreted
  value, or both give none.
\<close>

theorem interpreted_is_raw_over_divisor:
  "(uint fb AND 15 \<in> {1, 2, 8} \<and> length bs = 2 \<or> uint fb AND 15 \<in> {4, 7, 10} \<and> length bs = 4 \<longrightarrow>
      (\<exists>d. decode_format_and_data env cid fb bs = Inr (Some d) \<and> divisor d = spec_divisor fb
            \<and> spec_scaled (divisor d) (raw d) = Some (interpreted d)))
   \<and> (fb' AND 207 = fb AND 207 \<longrightarrow>
        scaling_of (decode_format_and_data env cid fb' bs) =
        scaling_of (decode_format_and_data env cid fb bs))"
  using scaled_formats [of fb bs env cid] digits_independent [of fb' fb env cid bs] by blast

theorem interpreted_is_raw_over_divisor_witness:
  "(uint (0x41 :: byte) AND 15 \<in> {1, 2, 8} \<and> length [0, 10 :: byte] = 2)
   \<and> (0x71 :: byte) AND 207 = 0x41 AND 207
   \<and> scaling_of (decode_format_and_data example_env 5 0x41 [0, 10]) = Some (10, RawInt 10, Scaled 1)
   \<and> scaling_of (decode_format_and_data example_env 5 0x71 [0, 10]) = Some (10, RawInt 10, Scaled 1)"
proof -
  have h1: "uint (0x41 :: byte) AND 15 \<in> {1, 2, 8} \<and> length [0, 10 :: byte] = 2" by simp
  have h2: "(0x71 :: byte) AND 207 = 0x41 AND 207" by simp
  have v: "scaling_of (decode_format_and_data example_env 5 0x41 [0, 10]) = Some (10, RawInt 10, Scaled 1)"
    by (simp add: dfd_defs scaling_of_def dict_get_def divisor_map_def from_bytes_big_def)
  from interpreted_is_raw_over_divisor [of "0x41" "[0, 10]" example_env 5 "0x71"] h2
  have "scaling_of (decode_format_and_data example_env 5 0x71 [0, 10]) =
        scaling_of (decode_format_and_data example_env 5 0x41 [0, 10])" by blast
  with h1 h2 v show ?thesis by simp
qed

text \<open>
  The claim as stated covers every supported format code. Format 0x05 is supported and
  is not scaled: with divisor 10 the payload 00 01 02 03 is interpreted as the duration
  of 1 hour, 2 minutes and 3 seconds.
\<close>

theorem format_05_counterexample:
  "scaling_of (decode_format_and_data example_env 5 0x45 [0, 1, 2, 3]) =
     Some (10, RawTimer 0 1 2 3, Duration 3723)"
  by (simp add: dfd_defs scaling_of_def dict_get_def divisor_map_def)

section \<open>The loop over the body\<close>

lemma decode_record_complete:
  assumes "complete_record env (cid, fb, payload)"
  shows "decode_record env (pre @ encode_record (cid, fb, payload) @ rest) (length pre) =
           (length pre + length (encode_record (cid, fb, payload)), record_outcome env (cid, fb, payload))"
proof -
  let ?body = "pre @ (cid # fb # payload) @ rest"
  have len: "length payload = data_length_of env fb"
    using assms by (simp add: complete_record_def)
  have n0: "?body ! length pre = cid" by (simp add: nth_append)
  have n1: "?body ! (length pre + 1) = fb" by (simp add: nth_append)
  have d: "drop (length pre + 2) ?body = payload @ rest" by simp
  show ?thesis
    unfolding decode_record_def encode_record_def prod.case n0 n1 Let_def d
    by (simp add: len [symmetric] record_outcome_def split: sum.split)
qed

lemma decode_body_complete:
  "list_all (complete_record env) rs \<Longrightarrow>
     decode_body env (pre @ encode_body rs @ rest) (length pre) vals =
     decode_body env (pre @ encode_body rs @ rest) (length pre + length (encode_body rs))
       (stored env vals rs)"
proof (induction rs arbitrary: pre vals)
  case Nil
  show ?case by (simp add: encode_body_def)
next
  case (Cons r rs)
  obtain cid fb payload where r: "r = (cid, fb, payload)" by (cases r)
  let ?body = "pre @ encode_body (r # rs) @ rest"
  have body: "?body = pre @ encode_record (cid, fb, payload) @ (encode_body rs @ rest)"
    by (simp add: encode_body_def r)
  have body': "?body = (pre @ encode_record r) @ encode_body rs @ rest"
    by (simp add: encode_body_def)
  have c: "complete_record env (cid, fb, payload)" and cs: "list_all (complete_record env) rs"
    using Cons.prems by (simp_all add: r)
  have lt: "length pre < length ?body" by (simp add: encode_body_def r encode_record_def)
  have step: "decode_record env ?body (length pre) =
      (length pre + length (encode_record r), record_outcome env r)"
    by (subst body, unfold r, rule decode_record_complete [OF c])
  have "decode_body env ?body (length pre) vals =
        decode_body env ?body (length pre + length (encode_record r))
          (store_entry (record_outcome env r) vals)"
    by (subst decode_body.simps) (simp only: lt step if_True fst_conv snd_conv)
  also have "\<dots> = decode_body env ?body (length (pre @ encode_record r))
          (store_entry (record_outcome env r) vals)" by simp
  also have "\<dots> = decode_body env ?body (length (pre @ encode_record r) + length (encode_body rs))
          (stored env (store_entry (record_outcome env r) vals) rs)"
    unfolding body' by (rule Cons.IH [OF cs])
  finally show ?case by (simp add: encode_body_def add.assoc)
qed

lemma decode_body_at_end: "decode_body env body (length body) vals = Some vals"
  by (subst decode_body.simps) simp

lemma decode_body_stuck:
  assumes "index + 1 = length body"
  shows "decode_body env body index vals = None"
proof (rule ccontr)
  assume "decode_body env body index vals \<noteq> None"
  then obtain y where y: "decode_body env body index vals = Some y" by auto
  have "index + 1 \<noteq> length body"
  proof (rule decode_body.raw_induct
      [where P = "\<lambda>env body index vals y. index + 1 \<noteq> length body", OF _ y], goal_cases)
    case (1 f env body index vals y)
    show ?case
    proof
      assume s: "index + 1 = length body"
      then have "decode_record env body index = (index, Inl IndexError)"
        by (simp add: decode_record_def)
      with 1(2) s have "f env body index vals = Some y"
        by (simp add: store_entry_def)
      then have "index + 1 \<noteq> length body" by (rule 1(1))
      with s show False by simp
    qed
  qed
  with assms show False by simp
qed

lemma decode_body_complete_records:
  "list_all (complete_record env) rs \<Longrightarrow>
     decode_body env (encode_body rs) 0 vals = Some (stored env vals rs)"
  using decode_body_complete [of env rs "[]" "[]" vals]
  by (simp add: decode_body_at_end)

lemma decode_body_trailing_byte:
  "list_all (complete_record env) rs \<Longrightarrow>
     decode_body env (encode_body rs @ [x]) 0 vals = None"
  using decode_body_complete [of env rs "[]" "[x]" vals]
  by (simp add: decode_body_stuck)

lemma frame_around_parts:
  "5 \<le> length (frame_around env t f n c body)"
  "take 4 (frame_around env t f n c body) = [t, f, n, c]"
  "frame_around env t f n c body ! 0 = t"
  "frame_around env t f n c body ! 1 = f"
  "frame_around env t f n c body ! 3 = c"
  "frame_around env t f n c body ! 4 = calculate_checksum env [t, f, n, c]"
  "drop 5 (butlast (frame_around env t f n c body)) = body"
  "last (frame_around env t f n c body) = calculate_checksum env body"
  by (simp_all add: frame_around_def butlast_append numeral_eq_Suc)

lemma decode_frame_around:
  "decode_frame env (frame_around env t f n c body) =
     map_option (\<lambda>vals. Decoded \<lparr>to_address = lookup_name (ADDRESS_LOOKUP env) t,
                                    from_address = lookup_name (ADDRESS_LOOKUP env) f,
                                    command = lookup_name (COMMAND_LOOKUP env) c,
                                    values_of = vals\<rparr>)
       (decode_body env body 0 Map.empty)"
  by (simp add: decode_frame_def frame_around_def Let_def butlast_append numeral_eq_Suc)

lemma record_outcome_Inr:
  "decode_format_and_data env cid fb payload = Inr v \<Longrightarrow>
     record_outcome env (cid, fb, payload) = Inr (lookup_name (CHANNEL_LOOKUP env) cid, v)"
  by (simp add: record_outcome_def)

lemma record_outcome_channel:
  "\<exists>v. record_outcome env r = Inr (channel_of env r, v)"
proof -
  obtain cid fb payload where r: "r = (cid, fb, payload)" by (cases r)
  have "\<exists>v. decode_format_and_data env cid fb payload = Inr v"
    by (simp add: decode_format_and_data_def split: sum.split)
  then obtain v where "decode_format_and_data env cid fb payload = Inr v" ..
  then show ?thesis by (simp add: r record_outcome_def channel_of_def)
qed

lemma stored_append: "stored env vals (xs @ ys) = stored env (stored env vals xs) ys"
  by (induction xs arbitrary: vals) simp_all

lemma stored_other_names:
  "list_all (\<lambda>r. channel_of env r \<noteq> name) rs \<Longrightarrow> stored env vals rs name = vals name"
proof (induction rs arbitrary: vals)
  case Nil
  show ?case by simp
next
  case (Cons r rs)
  obtain v where v: "record_outcome env r = Inr (channel_of env r, v)"
    using record_outcome_channel by blast
  from Cons.prems have "channel_of env r \<noteq> name" and "list_all (\<lambda>r. channel_of env r \<noteq> name) rs"
    by simp_all
  then show ?case by (simp add: Cons.IH v store_entry_def)
qed

lemma dom_stored: "dom (stored env vals rs) = dom vals \<union> channel_of env ` set rs"
proof (induction rs arbitrary: vals)
  case Nil
  show ?case by simp
next
  case (Cons r rs)
  obtain v where v: "record_outcome env r = Inr (channel_of env r, v)"
    using record_outcome_channel by blast
  show ?case by (auto simp: Cons.IH v store_entry_def)
qed

lemma stored_last_of_name:
  assumes "decode_format_and_data env cid fb payload = Inr v"
    and "list_all (\<lambda>r. channel_of env r \<noteq> lookup_name (CHANNEL_LOOKUP env) cid) after"
  shows "stored env vals (before @ (cid, fb, payload) # after) (lookup_name (CHANNEL_LOOKUP env) cid) = Some v"
  by (simp add: stored_append stored_other_names [OF assms(2)] record_outcome_Inr [OF assms(1)]
        store_entry_def)

lemma decode_frame_complete_records:
  "list_all (complete_record env) rs \<Longrightarrow>
     decode_frame env (frame_around env t f n c (encode_body rs)) =
       Some (Decoded \<lparr>to_address = lookup_name (ADDRESS_LOOKUP env) t,
                      from_address = lookup_name (ADDRESS_LOOKUP env) f,
                      command = lookup_name (COMMAND_LOOKUP env) c,
                      values_of = stored env Map.empty rs\<rparr>)"
  by (simp add: decode_frame_around decode_body_complete_records)

lemmas run_defs = decode_frame_def decode_body.simps decode_record_def data_length_of_def
  dict_get_def store_entry_def decode_format_and_data_def decode_format_and_data_try_def
  lookup_name_def hex02X_def hex_digit_def bytes_hex_def from_bytes_big_def divisor_map_def
  digits_map_def result_values_def is_decoded_def Let_def

subsection \<open>A record that fails to decode\<close>

text \<open>
  Claim C2, as the code has it: when the body is a sequence of complete records and one
  of them fails to decode (\<^verbatim>\<open>decode_format_and_data\<close> returns \<^verbatim>\<open>None\<close>: empty payload,
  wrong payload length for the format code, unsupported format code), \<^verbatim>\<open>decode_frame\<close>
  still returns a decoded frame; the channel name of the failed record is a key of the
  value mapping, with the value \<^verbatim>\<open>None\<close> (unless a later record of the same name
  replaces it), and the channel name of every other record is a key as well.
\<close>

theorem failed_record_is_stored_as_None:
  assumes "list_all (complete_record env) (before @ (cid, fb, payload) # after)"
    and "decode_format_and_data env cid fb payload = Inr None"
    and "list_all (\<lambda>r. channel_of env r \<noteq> lookup_name (CHANNEL_LOOKUP env) cid) after"
  shows "let r = decode_frame env (frame_around env t f n c (encode_body (before @ (cid, fb, payload) # after)))
         in is_decoded r
          \<and> result_values r (lookup_name (CHANNEL_LOOKUP env) cid) = Some None
          \<and> list_all (\<lambda>x. channel_of env x \<in> dom (result_values r)) (before @ after)"
  by (simp add: decode_frame_complete_records [OF assms(1)] is_decoded_def result_values_def
        stored_last_of_name [OF assms(2,3)] dom_stored list_all_iff del: stored.simps)

theorem failed_record_is_stored_as_None_witness:
  "list_all (complete_record example_env) ([] @ (0x41, 0x0F, []) # [(0x05, 0x01, [0x00, 0x0A])])
   \<and> decode_format_and_data example_env 0x41 0x0F [] = Inr None
   \<and> list_all (\<lambda>r. channel_of example_env r \<noteq> lookup_name (CHANNEL_LOOKUP example_env) 0x41)
        [(0x05, 0x01, [0x00, 0x0A])]
   \<and> result_values (decode_frame example_env (frame_around example_env 1 2 4 0x10
        (encode_body ([] @ (0x41, 0x0F, []) # [(0x05, 0x01, [0x00, 0x0A])]))))
        (lookup_name (CHANNEL_LOOKUP example_env) 0x41) = Some None"
proof -
  have h1: "list_all (complete_record example_env) ([] @ (0x41, 0x0F, []) # [(0x05, 0x01, [0x00, 0x0A])])"
    by (simp add: complete_record_def data_length_of_def dict_get_def example_env_def)
  have h2: "decode_format_and_data example_env 0x41 0x0F [] = Inr None"
    by (simp add: decode_format_and_data_def decode_format_and_data_try_def Let_def)
  have h3: "list_all (\<lambda>r. channel_of example_env r \<noteq> lookup_name (CHANNEL_LOOKUP example_env) 0x41)
        [(0x05, 0x01, [0x00, 0x0A])]"
    by (simp add: channel_of_def lookup_name_def example_env_def hex02X_def hex_digit_def)
  show ?thesis
    using failed_record_is_stored_as_None [OF h1 h2 h3, of 1 2 4 16] h1 h2 h3
    by (simp add: Let_def)
qed

text \<open>
  The claim as stated has the failed record's channel absent from the mapping. In the
  frame below the record of channel 0x41 has the unsupported format code 0x0F and no
  payload, and a well-formed record of channel 0x05 follows; the name of channel 0x41 is
  in the mapping, with the value \<^verbatim>\<open>None\<close>.
\<close>

theorem failed_record_counterexample:
  "is_decoded (decode_frame example_env [1, 2, 4, 0x10, 0xE9, 0x41, 0x0F, 0x05, 0x01, 0x00, 0x0A, 0xA0])
   \<and> result_values (decode_frame example_env [1, 2, 4, 0x10, 0xE9, 0x41, 0x0F, 0x05, 0x01, 0x00, 0x0A, 0xA0])
        ''Unknown (0x41)'' = Some None"
  by (simp add: run_defs example_env_def)

subsection \<open>A body that ends in a lone byte\<close>

text \<open>
  Claim C3 says that \<^verbatim>\<open>decode_frame\<close> returns on every frame and that the loop moves on
  in every pass. The code does not do that: when the cursor stands on the last byte of
  the body, \<^verbatim>\<open>body[index + 1]\<close> raises before the cursor is advanced, the handler of
  the loop catches the exception, and the same pass is repeated for ever. The theorem
  states this for every frame with matching checksums whose body is a sequence of
  complete records followed by one more byte.
\<close>

theorem lone_trailing_byte_never_returns:
  "list_all (complete_record env) rs \<Longrightarrow>
     decode_frame env (frame_around env t f n c (encode_body rs @ [x])) = None"
  by (simp add: decode_frame_around decode_body_trailing_byte)

theorem lone_trailing_byte_never_returns_witness:
  "list_all (complete_record example_env) [(0x05, 0x01, [0x00, 0x0A])] \<and>
   frame_around example_env 1 2 4 0x10 (encode_body [(0x05, 0x01, [0x00, 0x0A])] @ [7]) =
     [1, 2, 4, 0x10, 0xE9, 0x05, 0x01, 0x00, 0x0A, 7, 0xE9] \<and>
   decode_frame example_env [1, 2, 4, 0x10, 0xE9, 0x05, 0x01, 0x00, 0x0A, 7, 0xE9] = None"
proof -
  have h: "list_all (complete_record example_env) [(0x05, 0x01, [0x00, 0x0A])]"
    by (simp add: complete_record_def data_length_of_def dict_get_def example_env_def)
  have f: "frame_around example_env 1 2 4 0x10 (encode_body [(0x05, 0x01, [0x00, 0x0A])] @ [7]) =
     [1, 2, 4, 0x10, 0xE9, 0x05, 0x01, 0x00, 0x0A, 7, 0xE9]"
    by (simp add: frame_around_def encode_body_def encode_record_def example_env_def)
  show ?thesis
    using lone_trailing_byte_never_returns [OF h, of 1 2 4 16 7] h f by simp
qed

subsection \<open>The checksums\<close>

text \<open>
  Claim C6: for a frame that has a header (five bytes or more), if the checksum of the
  first four bytes differs from byte 4 the result is the header-checksum error, with no
  channel values and without going through the body; if it matches and the checksum of
  the body differs from the last byte the result is the body-checksum error; if both
  match, the result is what the loop over the body gives, under the three names of the
  header.
\<close>

theorem checksums_checked_in_order:
  assumes "5 \<le> length frame"
  shows "(calculate_checksum env (take 4 frame) \<noteq> frame ! 4 \<longrightarrow>
            decode_frame env frame = Some (Error ''Header checksum mismatch''))
       \<and> (calculate_checksum env (take 4 frame) = frame ! 4
            \<and> calculate_checksum env (drop 5 (butlast frame)) \<noteq> last frame \<longrightarrow>
            decode_frame env frame = Some (Error ''Body checksum mismatch''))
       \<and> (calculate_checksum env (take 4 frame) = frame ! 4
            \<and> calculate_checksum env (drop 5 (butlast frame)) = last frame \<longrightarrow>
            decode_frame env frame =
              map_option (\<lambda>vals. Decoded \<lparr>to_address = lookup_name (ADDRESS_LOOKUP env) (frame ! 0),
                                             from_address = lookup_name (ADDRESS_LOOKUP env) (frame ! 1),
                                             command = lookup_name (COMMAND_LOOKUP env) (frame ! 3),
                                             values_of = vals\<rparr>)
                (decode_body env (drop 5 (butlast frame)) 0 Map.empty))"
  using assms by (simp add: decode_frame_def Let_def)

theorem checksums_checked_in_order_witness:
  "decode_frame example_env [1, 2, 4, 0x10, 0x00, 0x05, 0x01, 0x00, 0x0A, 0xF0] =
     Some (Error ''Header checksum mismatch'')
   \<and> decode_frame example_env [1, 2, 4, 0x10, 0xE9, 0x05, 0x01, 0x00, 0x0A, 0x00] =
     Some (Error ''Body checksum mismatch'')
   \<and> is_decoded (decode_frame example_env [1, 2, 4, 0x10, 0xE9, 0x05, 0x01, 0x00, 0x0A, 0xF0])"
proof -
  have a: "decode_frame example_env [1, 2, 4, 0x10, 0x00, 0x05, 0x01, 0x00, 0x0A, 0xF0] =
     Some (Error ''Header checksum mismatch'')"
    using checksums_checked_in_order [of "[1, 2, 4, 0x10, 0x00, 0x05, 0x01, 0x00, 0x0A, 0xF0]" example_env]
    by (simp add: example_env_def)
  have b: "decode_frame example_env [1, 2, 4, 0x10, 0xE9, 0x05, 0x01, 0x00, 0x0A, 0x00] =
     Some (Error ''Body checksum mismatch'')"
    using checksums_checked_in_order [of "[1, 2, 4, 0x10, 0xE9, 0x05, 0x01, 0x00, 0x0A, 0x00]" example_env]
    by (simp add: example_env_def)
  have c: "is_decoded (decode_frame example_env [1, 2, 4, 0x10, 0xE9, 0x05, 0x01, 0x00, 0x0A, 0xF0])"
    using checksums_checked_in_order [of "[1, 2, 4, 0x10, 0xE9, 0x05, 0x01, 0x00, 0x0A, 0xF0]" example_env]
    by (simp add: run_defs example_env_def)
  from a b c show ?thesis by simp
qed

subsection \<open>Records of one channel name\<close>

text \<open>
  Claim C10, as the code has it: when the body is a sequence of complete records and
  two or more of them have the same channel name, the value mapping has one entry for
  that name, and it holds what \<^verbatim>\<open>decode_format_and_data\<close> returned for the last record
  of that name in the body: the decoded value of that record when it is well-formed,
  \<^verbatim>\<open>None\<close> when it fails to decode. What the earlier records of the name decoded to is
  overwritten.
\<close>

theorem last_record_of_name_is_stored:
  assumes "list_all (complete_record env) (rs1 @ (cid1, fb1, p1) # rs2 @ (cid2, fb2, p2) # rs3)"
    and "lookup_name (CHANNEL_LOOKUP env) cid1 = lookup_name (CHANNEL_LOOKUP env) cid2"
    and "decode_format_and_data env cid2 fb2 p2 = Inr v2"
    and "list_all (\<lambda>r. channel_of env r \<noteq> lookup_name (CHANNEL_LOOKUP env) cid2) rs3"
  shows "let r = decode_frame env (frame_around env t f n c
                   (encode_body (rs1 @ (cid1, fb1, p1) # rs2 @ (cid2, fb2, p2) # rs3)))
         in is_decoded r \<and> result_values r (lookup_name (CHANNEL_LOOKUP env) cid1) = Some v2"
proof -
  have "stored env Map.empty ((rs1 @ (cid1, fb1, p1) # rs2) @ (cid2, fb2, p2) # rs3)
          (lookup_name (CHANNEL_LOOKUP env) cid2) = Some v2"
    by (rule stored_last_of_name [OF assms(3,4)])
  then show ?thesis
    by (simp add: decode_frame_complete_records [OF assms(1)] is_decoded_def result_values_def assms(2)
          del: stored.simps)
qed

theorem last_record_of_name_is_stored_witness:
  "list_all (complete_record example_env)
      ([] @ (0x05, 0x01, [0x00, 0x0A]) # [] @ (0x05, 0x01, [0x00, 0x0B]) # [(0x06, 0x01, [0x00, 0x01])])
   \<and> list_all (\<lambda>r. channel_of example_env r \<noteq> lookup_name (CHANNEL_LOOKUP example_env) 0x05)
        [(0x06, 0x01, [0x00, 0x01])]
   \<and> is_decoded (decode_frame example_env (frame_around example_env 1 2 4 0x10
         (encode_body ([] @ (0x05, 0x01, [0x00, 0x0A]) # [] @ (0x05, 0x01, [0x00, 0x0B]) #
                       [(0x06, 0x01, [0x00, 0x01])]))))
   \<and> raw (the (the (result_values
      (decode_frame example_env (frame_around example_env 1 2 4 0x10
         (encode_body ([] @ (0x05, 0x01, [0x00, 0x0A]) # [] @ (0x05, 0x01, [0x00, 0x0B]) #
                       [(0x06, 0x01, [0x00, 0x01])]))))
      ''Unknown (0x05)''))) = RawInt 11"
proof -
  let ?v = "\<lparr>channel_id = ''0x05'', format_byte = ''0x01'', data_bytes = ''000b'', divisor = 1,
             digits = 1, format_bits = 1, raw = RawInt 11, interpreted = Scaled 11\<rparr>"
  have h1: "list_all (complete_record example_env)
      ([] @ (0x05, 0x01, [0x00, 0x0A]) # [] @ (0x05, 0x01, [0x00, 0x0B]) # [(0x06, 0x01, [0x00, 0x01])])"
    by (simp add: complete_record_def data_length_of_def dict_get_def example_env_def)
  have h2: "lookup_name (CHANNEL_LOOKUP example_env) 0x05 = lookup_name (CHANNEL_LOOKUP example_env) 0x05"
    by simp
  have h3: "decode_format_and_data example_env 0x05 0x01 [0x00, 0x0B] = Inr (Some ?v)"
    by (simp add: run_defs)
  have h4: "list_all (\<lambda>r. channel_of example_env r \<noteq> lookup_name (CHANNEL_LOOKUP example_env) 0x05)
      [(0x06, 0x01, [0x00, 0x01])]"
    by (simp add: channel_of_def lookup_name_def example_env_def hex02X_def hex_digit_def)
  have n: "lookup_name (CHANNEL_LOOKUP example_env) 0x05 = ''Unknown (0x05)''"
    by (simp add: lookup_name_def example_env_def hex02X_def hex_digit_def)
  show ?thesis
    using last_record_of_name_is_stored [OF h1 h2 h3 h4, of 1 2 4 16] h1 h4
    by (simp add: Let_def n)
qed

text \<open>
  The claim as stated gives the entry the decoded value of the later of two well-formed
  records of one name. In the frame below two well-formed records of channel 0x05 (raw
  values 10 and 11) are followed by a third record of channel 0x05 with the unsupported
  format code 0x0F; the entry of that name is \<^verbatim>\<open>None\<close>, not the decoded value of the
  later well-formed record.
\<close>

theorem later_record_counterexample:
  "scaling_of (decode_format_and_data example_env 0x05 0x01 [0x00, 0x0B]) =
     Some (1, RawInt 11, Scaled 11)
   \<and> is_decoded (decode_frame example_env
        [1, 2, 4, 0x10, 0xE9, 0x05, 0x01, 0x00, 0x0A, 0x05, 0x01, 0x00, 0x0B, 0x05, 0x0F, 0xCB])
   \<and> result_values (decode_frame example_env
        [1, 2, 4, 0x10, 0xE9, 0x05, 0x01, 0x00, 0x0A, 0x05, 0x01, 0x00, 0x0B, 0x05, 0x0F, 0xCB])
        ''Unknown (0x05)'' = Some None"
proof (intro conjI)
  show "scaling_of (decode_format_and_data example_env 0x05 0x01 [0x00, 0x0B]) =
     Some (1, RawInt 11, Scaled 11)"
    by (simp add: dfd_defs scaling_of_def dict_get_def divisor_map_def from_bytes_big_def)
  show "is_decoded (decode_frame example_env
        [1, 2, 4, 0x10, 0xE9, 0x05, 0x01, 0x00, 0x0A, 0x05, 0x01, 0x00, 0x0B, 0x05, 0x0F, 0xCB])"
    by (simp add: run_defs example_env_def)
  show "result_values (decode_frame example_env
        [1, 2, 4, 0x10, 0xE9, 0x05, 0x01, 0x00, 0x0A, 0x05, 0x01, 0x00, 0x0B, 0x05, 0x0F, 0xCB])
        ''Unknown (0x05)'' = Some None"
    by (simp add: run_defs example_env_def)
qed

section \<open>The ASCII frame\<close>

text \<open>
  Claim C4 says that \<^verbatim>\<open>decode_ascii_frame\<close> validates the two checksums as
  \<^verbatim>\<open>decode_frame\<close> does. The code does not do that: it reads the two checksum bytes and
  never compares them. The frame below has a wrong header checksum (0x00 for 0xE9) and a
  wrong body checksum; \<^verbatim>\<open>decode_frame\<close> rejects it, \<^verbatim>\<open>decode_ascii_frame\<close> decodes it
  and returns the text of its channel.
\<close>

theorem ascii_frame_with_wrong_checksums_is_decoded:
  "decode_frame example_env [1, 2, 4, 0x10, 0x00, 0x41, 0x00, 0x31, 0x32, 0x2E, 0x33, 0x20, 0x00] =
     Some (Error ''Header checksum mismatch'')
   \<and> is_decoded (Some (decode_ascii_frame example_env
        [1, 2, 4, 0x10, 0x00, 0x41, 0x00, 0x31, 0x32, 0x2E, 0x33, 0x20, 0x00]))
   \<and> result_values (Some (decode_ascii_frame example_env
        [1, 2, 4, 0x10, 0x00, 0x41, 0x00, 0x31, 0x32, 0x2E, 0x33, 0x20, 0x00])) ''Unknown (0x41)'' =
      Some \<lparr>ascii_channel_id = ''0x41'', ascii_format_byte = ''0x00'', ascii_data_bytes = ''31322e3320'',
             ascii_raw = ''12.3'', ascii_interpreted = ''12.3''\<rparr>"
proof (intro conjI)
  show "decode_frame example_env [1, 2, 4, 0x10, 0x00, 0x41, 0x00, 0x31, 0x32, 0x2E, 0x33, 0x20, 0x00] =
     Some (Error ''Header checksum mismatch'')"
    by (simp add: decode_frame_def example_env_def)
  show "is_decoded (Some (decode_ascii_frame example_env
        [1, 2, 4, 0x10, 0x00, 0x41, 0x00, 0x31, 0x32, 0x2E, 0x33, 0x20, 0x00]))"
    by code_simp
  show "result_values (Some (decode_ascii_frame example_env
        [1, 2, 4, 0x10, 0x00, 0x41, 0x00, 0x31, 0x32, 0x2E, 0x33, 0x20, 0x00])) ''Unknown (0x41)'' =
      Some \<lparr>ascii_channel_id = ''0x41'', ascii_format_byte = ''0x00'', ascii_data_bytes = ''31322e3320'',
             ascii_raw = ''12.3'', ascii_interpreted = ''12.3''\<rparr>"
    by code_simp
qed

text \<open>The result of \<^verbatim>\<open>decode_ascii_frame\<close> does not depend on the two checksum bytes.\<close>

lemma decode_ascii_frame_ignores_checksum_bytes:
  "decode_ascii_frame env ([t, f, n, c, h] @ body @ [b]) =
   decode_ascii_frame env ([t, f, n, c, h'] @ body @ [b'])"
  by (simp add: decode_ascii_frame_def butlast_append numeral_eq_Suc)

end
